theory Spec2Isabelle
  imports Main "HOL-Library.AList"
begin

section \<open>Strings\<close>

text \<open>
  JavaScript strings are modelled as \<open>string\<close>, one \<open>char\<close> for each code unit. The three string operations that
  \<^verbatim>\<open>app.js\<close> uses on selector text are \<^verbatim>\<open>split\<close>, \<^verbatim>\<open>trim\<close> and \<^verbatim>\<open>indexOf\<close>.
\<close>

text \<open>\<^verbatim>\<open>s.split(c)\<close>: the pieces between the separators; the empty string gives one empty piece.\<close>

fun split_on :: "char \<Rightarrow> string \<Rightarrow> string list" where
  "split_on c [] = [[]]"
| "split_on c (x # xs) =
     (if x = c then [] # split_on c xs
      else (case split_on c xs of
              [] \<Rightarrow> [[x]]
            | p # ps \<Rightarrow> (x # p) # ps))"

text \<open>A \<open>char\<close> stands for a code unit below 256. The white space and line terminators
  that \<^verbatim>\<open>String.prototype.trim\<close> strips in that range: tab, line feed, vertical tab, form
  feed, carriage return, space and the no-break space U+00A0. The other characters that
  \<^verbatim>\<open>trim\<close> strips (U+1680, U+2000 to U+200A, U+2028, U+2029, U+202F, U+205F, U+3000,
  U+FEFF) lie above 255 and are not values of the type.\<close>

definition is_space :: "char \<Rightarrow> bool" where
  "is_space c \<longleftrightarrow>
     c \<in> {CHR 0x09, CHR 0x0A, CHR 0x0B, CHR 0x0C, CHR 0x0D, CHR 0x20, CHR 0xA0}"

definition trim :: "string \<Rightarrow> string" where
  "trim s = rev (dropWhile is_space (rev (dropWhile is_space s)))"

text \<open>\<^verbatim>\<open>s.indexOf(c)\<close>: the position of the first \<open>c\<close>, or \<open>-1\<close>.\<close>

fun indexOf :: "char \<Rightarrow> string \<Rightarrow> int" where
  "indexOf c [] = - 1"
| "indexOf c (x # xs) =
     (if x = c then 0
      else (let i = indexOf c xs in if i < 0 then - 1 else i + 1))"

section \<open>The selector grammar parser\<close>

text \<open>
  \<^verbatim>\<open>parseCustomSelector\<close> fills a plain object. The object is an association list in
  insertion order; \<open>map_of\<close> reads a property and \<open>map fst\<close> is \<^verbatim>\<open>Object.keys\<close>.
\<close>

type_synonym attributes = "(string \<times> string) list"

text \<open>\<^verbatim>\<open>attributes[key] = value\<close>. Assigning a string to the key \<^verbatim>\<open>__proto__\<close> of a plain
  object creates no property.\<close>

definition assign :: "string \<Rightarrow> string \<Rightarrow> attributes \<Rightarrow> attributes" where
  "assign key v attrs = (if key = ''__proto__'' then attrs else AList.update key v attrs)"

text \<open>The body of the \<^verbatim>\<open>forEach\<close> over the parts (lines 48--55).\<close>

definition parse_part :: "attributes \<Rightarrow> string \<Rightarrow> attributes" where
  "parse_part attrs part =
     (let firstEqualSign = indexOf CHR ''='' part in
      if firstEqualSign > 0
      then assign (trim (take (nat firstEqualSign) part))
                  (trim (drop (nat firstEqualSign + 1) part)) attrs
      else attrs)"

text \<open>\<^verbatim>\<open>parseCustomSelector\<close> (lines 36--57), on a string argument. The first part is the
  tag when it holds no \<^verbatim>\<open>=\<close>; it is stored under the key \<^verbatim>\<open>tagFromSelector\<close> of the same
  object.\<close>

definition parseCustomSelector :: "string \<Rightarrow> attributes" where
  "parseCustomSelector customSelectorString =
     (if customSelectorString = [] then []
      else
        (let parts = filter (\<lambda>p. p \<noteq> []) (map trim (split_on CHR '';'' customSelectorString))
         in case parts of
              [] \<Rightarrow> []
            | p # ps \<Rightarrow>
                if CHR ''='' \<notin> set p
                then foldl parse_part [(''tagFromSelector'', p)] ps
                else foldl parse_part [] (p # ps)))"

section \<open>The automation engine\<close>

text \<open>
  Playwright is external. A locator is the description the code builds; nothing is looked
  up until the code awaits \<^verbatim>\<open>count()\<close> or \<^verbatim>\<open>click()\<close> on it.
\<close>

datatype locator =
    Page
  | Locate locator string
  | LocateHasText locator string string
  | FilterHasText locator string
  | GetByRole locator string "string option"
  | GetByLabel locator string
  | GetByText locator string

text \<open>The awaited calls of \<^verbatim>\<open>app.js\<close> on the engine, with their timeouts in milliseconds.\<close>

datatype call =
    WaitForLoadState string nat
  | WaitForTimeout nat
  | Count locator
  | ClickFirst locator nat
  | Launch
  | NewContext
  | NewPage
  | BringToFront
  | Close

text \<open>An awaited call resolves (with the count, for \<open>Count\<close>) or rejects with an error
  of the given \<^verbatim>\<open>name\<close>.\<close>

datatype reply = Done nat | Raised string

text \<open>The engine answers a call given all the calls made before it, so a page that changes
  between two lookups is covered. Every function below threads the log of calls.\<close>

type_synonym log = "call list"
type_synonym engine = "log \<Rightarrow> call \<Rightarrow> reply"

definition perform :: "engine \<Rightarrow> call \<Rightarrow> log \<Rightarrow> reply \<times> log" where
  "perform eng c lg = (eng lg c, lg @ [c])"

text \<open>The errors that reach a handler's \<^verbatim>\<open>catch\<close>: the four \<^verbatim>\<open>new Error(...)\<close> of
  \<^verbatim>\<open>app.js\<close> and whatever the engine rejects with.\<close>

datatype error =
    PageNotInitialized
  | AnchorNotFound string
  | UnderspecifiedWithinAnchor
  | NoStrategy
  | EngineError string

fun name_of :: "error \<Rightarrow> string" where
  "name_of (EngineError n) = n"
| "name_of _ = ''Error''"

section \<open>Pre-click waits\<close>

text \<open>\<^verbatim>\<open>performPreClickWaits\<close> (lines 18--32). Only the network-idle wait is inside the
  \<^verbatim>\<open>try\<close>.\<close>

definition performPreClickWaits :: "engine \<Rightarrow> bool \<Rightarrow> log \<Rightarrow> (error + unit) \<times> log" where
  "performPreClickWaits eng pageInstance lg =
     (if \<not> pageInstance then (Inl PageNotInitialized, lg)
      else
        (let (r1, lg1) = perform eng (WaitForLoadState ''networkidle'' 30000) lg;
             (r2, lg2) = perform eng (WaitForTimeout 5000) lg1
         in case r2 of
              Raised n \<Rightarrow> (Inl (EngineError n), lg2)
            | Done _ \<Rightarrow> (Inr (), lg2)))"

section \<open>The locator resolution engine\<close>

text \<open>The value of \<^verbatim>\<open>parsedAttributes[k]\<close> where the code tests it for truth: a property
  that is missing and one that holds the empty string both fail the test.\<close>

definition attr :: "attributes \<Rightarrow> string \<Rightarrow> string option" where
  "attr parsedAttributes k =
     (case map_of parsedAttributes k of
        None \<Rightarrow> None
      | Some v \<Rightarrow> if v = [] then None else Some v)"

text \<open>Line 65: \<^verbatim>\<open>parsedAttributes.tagFromSelector || originalTagNameFromBody || '*'\<close>. The
  request's \<^verbatim>\<open>tagName\<close> is taken at its declared type, an optional string; the handler
  does not check it.\<close>

definition effective_tag :: "attributes \<Rightarrow> string option \<Rightarrow> string" where
  "effective_tag parsedAttributes originalTagNameFromBody =
     (case attr parsedAttributes ''tagFromSelector'' of
        Some t \<Rightarrow> t
      | None \<Rightarrow>
          (case originalTagNameFromBody of
             None \<Rightarrow> ''*''
           | Some t \<Rightarrow> if t = [] then ''*'' else t))"

definition dquote :: string where
  "dquote = [CHR 0x22]"

text \<open>\<^verbatim>\<open>`${tag}[key="${v}"]`\<close>\<close>

definition attr_equals :: "string \<Rightarrow> string \<Rightarrow> string \<Rightarrow> string" where
  "attr_equals tag key v = tag @ ''['' @ key @ ''='' @ dquote @ v @ dquote @ '']''"

text \<open>Lines 117--126: the CSS string of the last rule.\<close>

definition class_suffix :: "string \<Rightarrow> string" where
  "class_suffix classes =
     concat (map (\<lambda>cls. ''.'' @ cls) (filter (\<lambda>cls. cls \<noteq> []) (map trim (split_on CHR '','' classes))))"

definition cssStringOf :: "attributes \<Rightarrow> string \<Rightarrow> string" where
  "cssStringOf parsedAttributes tag =
     (let s0 = (if tag = ''*'' \<and> (attr parsedAttributes ''name'' \<noteq> None \<or> attr parsedAttributes ''classes'' \<noteq> None)
                then [] else tag);
          s1 = (case attr parsedAttributes ''name'' of
                  None \<Rightarrow> s0
                | Some n \<Rightarrow> attr_equals s0 ''name'' n)
      in case attr parsedAttributes ''classes'' of
           None \<Rightarrow> s1
         | Some classes \<Rightarrow> s1 @ class_suffix classes)"

text \<open>Lines 127--131: what becomes of \<^verbatim>\<open>targetLocator\<close> once the CSS string is built.
  \<^verbatim>\<open>baseLocator !== currentPage\<close> holds exactly when the \<^verbatim>\<open>closestId\<close> branch replaced
  the base.\<close>

definition css_target :: "locator \<Rightarrow> string \<Rightarrow> locator option" where
  "css_target baseLocator cssString =
     (if cssString \<noteq> [] \<and> cssString \<noteq> ''*'' then Some (Locate baseLocator cssString)
      else if cssString = ''*'' \<and> baseLocator \<noteq> Page then Some (Locate baseLocator ''*'')
      else None)"

text \<open>Lines 99--113: the text rule, which counts the tag-specific locator first.\<close>

definition text_target ::
  "engine \<Rightarrow> string \<Rightarrow> string \<Rightarrow> locator \<Rightarrow> log \<Rightarrow> (error + locator option) \<times> log" where
  "text_target eng txt tag baseLocator lg =
     (if tag \<noteq> ''*''
      then
        (let specificLocator = FilterHasText (Locate baseLocator tag) txt;
             (r, lg1) = perform eng (Count specificLocator) lg
         in case r of
              Raised n \<Rightarrow> (Inl (EngineError n), lg1)
            | Done c \<Rightarrow>
                if c > 0 then (Inr (Some specificLocator), lg1)
                else (Inr (Some (GetByText baseLocator txt)), lg1))
      else (Inr (Some (GetByText baseLocator txt)), lg))"

text \<open>Lines 76--132: the \<^verbatim>\<open>if\<close>/\<^verbatim>\<open>else if\<close> chain that assigns \<^verbatim>\<open>targetLocator\<close>, or
  leaves it undefined (\<open>None\<close>).\<close>

definition select_target ::
  "engine \<Rightarrow> attributes \<Rightarrow> string \<Rightarrow> locator \<Rightarrow> log \<Rightarrow> (error + locator option) \<times> log" where
  "select_target eng parsedAttributes tag baseLocator lg =
     (case attr parsedAttributes ''id'' of
        Some i \<Rightarrow> (Inr (Some (Locate baseLocator (''#'' @ i))), lg)
      | None \<Rightarrow>
     (case attr parsedAttributes ''data-testid'' of
        Some v \<Rightarrow> (Inr (Some (Locate baseLocator (attr_equals tag ''data-testid'' v))), lg)
      | None \<Rightarrow>
     (case attr parsedAttributes ''data-cy'' of
        Some v \<Rightarrow> (Inr (Some (Locate baseLocator (attr_equals tag ''data-cy'' v))), lg)
      | None \<Rightarrow>
     (case attr parsedAttributes ''data-qa'' of
        Some v \<Rightarrow> (Inr (Some (Locate baseLocator (attr_equals tag ''data-qa'' v))), lg)
      | None \<Rightarrow>
     (case attr parsedAttributes ''role'' of
        Some r \<Rightarrow>
          (Inr (Some (GetByRole baseLocator r
             (case attr parsedAttributes ''text'' of
                Some t \<Rightarrow> Some t
              | None \<Rightarrow> attr parsedAttributes ''aria-label''))), lg)
      | None \<Rightarrow>
     (case attr parsedAttributes ''aria-label'' of
        Some l \<Rightarrow> (Inr (Some (GetByLabel baseLocator l)), lg)
      | None \<Rightarrow>
     (case attr parsedAttributes ''text'' of
        Some t \<Rightarrow> text_target eng t tag baseLocator lg
      | None \<Rightarrow>
          if tag \<noteq> ''*'' \<or> attr parsedAttributes ''name'' \<noteq> None
             \<or> attr parsedAttributes ''classes'' \<noteq> None
          then (Inr (css_target baseLocator (cssStringOf parsedAttributes tag)), lg)
          else (Inr None, lg))))))))"

text \<open>Line 137: no key of the object other than \<^verbatim>\<open>closestId\<close> and \<^verbatim>\<open>tagFromSelector\<close>.\<close>

definition only_anchor_keys :: "attributes \<Rightarrow> bool" where
  "only_anchor_keys parsedAttributes \<longleftrightarrow>
     length (filter (\<lambda>k. k \<noteq> ''closestId'' \<and> k \<noteq> ''tagFromSelector'') (map fst parsedAttributes)) = 0"

text \<open>Lines 76--143: the chain, then the two errors for an undefined \<^verbatim>\<open>targetLocator\<close>.\<close>

definition resolve_within ::
  "engine \<Rightarrow> attributes \<Rightarrow> string \<Rightarrow> locator \<Rightarrow> log \<Rightarrow> (error + locator) \<times> log" where
  "resolve_within eng parsedAttributes tag baseLocator lg =
     (case select_target eng parsedAttributes tag baseLocator lg of
        (Inl e, lg') \<Rightarrow> (Inl e, lg')
      | (Inr (Some targetLocator), lg') \<Rightarrow> (Inr targetLocator, lg')
      | (Inr None, lg') \<Rightarrow>
          if baseLocator \<noteq> Page \<and> only_anchor_keys parsedAttributes
          then (Inl UnderspecifiedWithinAnchor, lg')
          else (Inl NoStrategy, lg'))"

text \<open>Lines 67--73: the base of all later lookups. With a \<^verbatim>\<open>closestId\<close> the anchor is
  counted in the whole page, and zero matches throw.\<close>

definition establish_scope :: "engine \<Rightarrow> attributes \<Rightarrow> log \<Rightarrow> (error + locator) \<times> log" where
  "establish_scope eng parsedAttributes lg =
     (case attr parsedAttributes ''closestId'' of
        None \<Rightarrow> (Inr Page, lg)
      | Some cid \<Rightarrow>
          (let baseLocator = Locate Page (''#'' @ cid);
               (r, lg1) = perform eng (Count baseLocator) lg
           in case r of
                Raised n \<Rightarrow> (Inl (EngineError n), lg1)
              | Done c \<Rightarrow>
                  if c = 0 then (Inl (AnchorNotFound cid), lg1)
                  else (Inr baseLocator, lg1)))"

text \<open>\<^verbatim>\<open>buildPlaywrightLocator\<close> (lines 61--144).\<close>

definition buildPlaywrightLocator ::
  "engine \<Rightarrow> attributes \<Rightarrow> string option \<Rightarrow> log \<Rightarrow> (error + locator) \<times> log" where
  "buildPlaywrightLocator eng parsedAttributes originalTagNameFromBody lg =
     (let tag = effective_tag parsedAttributes originalTagNameFromBody
      in case establish_scope eng parsedAttributes lg of
           (Inl e, lg1) \<Rightarrow> (Inl e, lg1)
         | (Inr baseLocator, lg1) \<Rightarrow> resolve_within eng parsedAttributes tag baseLocator lg1)"

section \<open>Request handlers\<close>

text \<open>A field of the JSON request body: missing, a string, or some other value of which
  only the truth value matters.\<close>

datatype jsval = JUndefined | JStr string | JOther bool

fun truthy :: "jsval \<Rightarrow> bool" where
  "truthy JUndefined = False"
| "truthy (JStr s) = (s \<noteq> [])"
| "truthy (JOther b) = b"

fun is_string :: "jsval \<Rightarrow> bool" where
  "is_string (JStr s) = True"
| "is_string _ = False"

fun str_of :: "jsval \<Rightarrow> string" where
  "str_of (JStr s) = s"
| "str_of _ = []"

text \<open>The \<^verbatim>\<open>catch\<close> block shared by the click handlers: 408 for a \<^verbatim>\<open>TimeoutError\<close>, 500
  for anything else.\<close>

definition catch_status :: "error \<Rightarrow> nat" where
  "catch_status e = (if name_of e = ''TimeoutError'' then 408 else 500)"

text \<open>\<^verbatim>\<open>await locator.first().click({ timeout: 15000 })\<close> and the 200 that follows.\<close>

definition click_and_respond :: "engine \<Rightarrow> locator \<Rightarrow> log \<Rightarrow> nat \<times> log" where
  "click_and_respond eng loc lg =
     (let (r, lg1) = perform eng (ClickFirst loc 15000) lg
      in case r of
           Raised n \<Rightarrow> (catch_status (EngineError n), lg1)
         | Done _ \<Rightarrow> (200, lg1))"

text \<open>\<^verbatim>\<open>app.post('/click/custom')\<close> (lines 256--298): the status of the response and the
  calls made. \<^verbatim>\<open>buildPlaywrightLocator\<close> returns a locator object or throws, so the
  \<^verbatim>\<open>!locator\<close> safeguard of line 275 is never taken.\<close>

definition click_custom :: "engine \<Rightarrow> bool \<Rightarrow> jsval \<Rightarrow> string option \<Rightarrow> log \<Rightarrow> nat \<times> log" where
  "click_custom eng page customSelector tagName lg =
     (if \<not> page then (500, lg)
      else if \<not> truthy customSelector \<or> \<not> is_string customSelector then (400, lg)
      else
        (case performPreClickWaits eng page lg of
           (Inl e, lg1) \<Rightarrow> (catch_status e, lg1)
         | (Inr _, lg1) \<Rightarrow>
             (let parsedAttributes = parseCustomSelector (str_of customSelector)
              in case buildPlaywrightLocator eng parsedAttributes tagName lg1 of
                   (Inl e, lg2) \<Rightarrow> (catch_status e, lg2)
                 | (Inr loc, lg2) \<Rightarrow>
                     (let (r, lg3) = perform eng (Count loc) lg2
                      in case r of
                           Raised n \<Rightarrow> (catch_status (EngineError n), lg3)
                         | Done c \<Rightarrow>
                             if c = 0 then (404, lg3)
                             else click_and_respond eng loc lg3))))"

text \<open>Line 240: \<^verbatim>\<open>`xpath=//${tagName}[normalize-space(.)=""]`\<close>\<close>

definition preciseEmptyXPath :: "string \<Rightarrow> string" where
  "preciseEmptyXPath tagName = ''xpath=//'' @ tagName @ ''[normalize-space(.)='' @ dquote @ dquote @ '']''"

text \<open>\<^verbatim>\<open>app.post('/click/text')\<close> (lines 218--253).\<close>

definition click_text :: "engine \<Rightarrow> bool \<Rightarrow> jsval \<Rightarrow> jsval \<Rightarrow> log \<Rightarrow> nat \<times> log" where
  "click_text eng page textContent tagName lg =
     (if \<not> page then (500, lg)
      else if \<not> is_string textContent then (400, lg)
      else if truthy tagName \<and> \<not> is_string tagName then (400, lg)
      else
        (case performPreClickWaits eng page lg of
           (Inl e, lg1) \<Rightarrow> (catch_status e, lg1)
         | (Inr _, lg1) \<Rightarrow>
             (let txt = str_of textContent;
                  loc = (if truthy tagName then LocateHasText Page (str_of tagName) txt
                         else GetByText Page txt);
                  (r, lg2) = perform eng (Count loc) lg1
              in case r of
                   Raised n \<Rightarrow> (catch_status (EngineError n), lg2)
                 | Done c \<Rightarrow>
                     if c = 0
                     then
                       (let loc' = (if truthy tagName \<and> txt = []
                                    then Locate Page (preciseEmptyXPath (str_of tagName))
                                    else loc);
                            (r', lg3) = perform eng (Count loc') lg2
                        in case r' of
                             Raised n \<Rightarrow> (catch_status (EngineError n), lg3)
                           | Done c' \<Rightarrow>
                               if c' = 0 then (404, lg3)
                               else click_and_respond eng loc' lg3)
                     else click_and_respond eng loc lg2)))"

section \<open>Session lifecycle\<close>

text \<open>The three global variables of \<^verbatim>\<open>app.js\<close>; \<open>True\<close> is a handle, \<open>False\<close> is
  \<^verbatim>\<open>null\<close>.\<close>

record session =
  browser :: bool
  "context" :: bool
  page :: bool

text \<open>How an asynchronous function ends: it returns, or \<^verbatim>\<open>process.exit\<close> ends the process
  with the given code.\<close>

datatype completion = Returned | Exited nat

text \<open>\<^verbatim>\<open>initializePlaywright\<close> (lines 349--361): each variable is assigned once its call
  has resolved; any rejection reaches the \<^verbatim>\<open>catch\<close> and \<^verbatim>\<open>process.exit(1)\<close>.\<close>

definition initializePlaywright :: "engine \<Rightarrow> session \<Rightarrow> log \<Rightarrow> completion \<times> session \<times> log" where
  "initializePlaywright eng st lg =
     (case perform eng Launch lg of
        (Raised n, lg1) \<Rightarrow> (Exited 1, st, lg1)
      | (Done _, lg1) \<Rightarrow>
     (let st1 = st\<lparr>browser := True\<rparr> in
      case perform eng NewContext lg1 of
        (Raised n, lg2) \<Rightarrow> (Exited 1, st1, lg2)
      | (Done _, lg2) \<Rightarrow>
     (let st2 = st1\<lparr>context := True\<rparr> in
      case perform eng NewPage lg2 of
        (Raised n, lg3) \<Rightarrow> (Exited 1, st2, lg3)
      | (Done _, lg3) \<Rightarrow>
     (let st3 = st2\<lparr>page := True\<rparr> in
      case perform eng BringToFront lg3 of
        (Raised n, lg4) \<Rightarrow> (Exited 1, st3, lg4)
      | (Done _, lg4) \<Rightarrow> (Returned, st3, lg4)))))"

text \<open>What a request to \<^verbatim>\<open>/restart-browser\<close> ends in: a response with a status, or the end
  of the process.\<close>

datatype outcome = Responded nat | ProcessExit nat

text \<open>\<^verbatim>\<open>app.post('/restart-browser')\<close> (lines 328--345).\<close>

definition restart_browser :: "engine \<Rightarrow> session \<Rightarrow> log \<Rightarrow> outcome \<times> session \<times> log" where
  "restart_browser eng st lg =
     (let closed =
            (if browser st
             then (case perform eng Close lg of
                     (Raised n, lg1) \<Rightarrow> (Inl (EngineError n), st, lg1)
                   | (Done _, lg1) \<Rightarrow>
                       (Inr (), st\<lparr>browser := False, context := False, page := False\<rparr>, lg1))
             else (Inr (), st, lg))
      in case closed of
           (Inl e, st1, lg1) \<Rightarrow> (Responded 500, st1, lg1)
         | (Inr _, st1, lg1) \<Rightarrow>
             (case initializePlaywright eng st1 lg1 of
                (Exited code, st2, lg2) \<Rightarrow> (ProcessExit code, st2, lg2)
              | (Returned, st2, lg2) \<Rightarrow> (Responded 200, st2, lg2)))"

text \<open>\<^verbatim>\<open>startServer\<close> (lines 363--375): the variables start as \<^verbatim>\<open>null\<close>; the server listens
  once \<^verbatim>\<open>initializePlaywright\<close> has returned.\<close>

definition initial_session :: session where
  "initial_session = \<lparr>browser = False, context = False, page = False\<rparr>"

definition startServer :: "engine \<Rightarrow> completion \<times> session \<times> log" where
  "startServer eng = initializePlaywright eng initial_session []"

section \<open>Engines for concrete runs\<close>

text \<open>An engine that resolves every call with the same number, and one that rejects one
  given call with a plain \<^verbatim>\<open>Error\<close> and resolves every other call with 1.\<close>

definition always :: "nat \<Rightarrow> engine" where
  "always n lg c = Done n"

definition rejecting :: "call \<Rightarrow> engine" where
  "rejecting bad lg c = (if c = bad then Raised ''Error'' else Done 1)"

section \<open>Keys of the attribute object\<close>



section \<open>Unfolding and evaluation\<close>

lemmas parse_defs = parseCustomSelector_def parse_part_def assign_def trim_def is_space_def Let_def

lemmas resolve_defs = buildPlaywrightLocator_def establish_scope_def resolve_within_def
  select_target_def text_target_def css_target_def cssStringOf_def class_suffix_def
  effective_tag_def attr_def only_anchor_keys_def attr_equals_def perform_def Let_def

lemmas handler_defs = click_custom_def click_text_def click_and_respond_def catch_status_def
  performPreClickWaits_def perform_def Let_def

lemma waits_run:
  "performPreClickWaits (always n) True lg =
     (Inr (), lg @ [WaitForLoadState ''networkidle'' 30000, WaitForTimeout 5000])"
  by (simp add: performPreClickWaits_def perform_def always_def)

lemma parse_anchor_id:
  "parseCustomSelector ''closestId=x;id=y'' = [(''closestId'', ''x''), (''id'', ''y'')]"
  by (simp add: parse_defs)

lemma parse_anchor_only: "parseCustomSelector ''closestId=x'' = [(''closestId'', ''x'')]"
  by (simp add: parse_defs)

lemma parse_unknown_only: "parseCustomSelector ''foo=bar'' = [(''foo'', ''bar'')]"
  by (simp add: parse_defs)

lemma build_anchor_missing:
  "buildPlaywrightLocator (always 0) [(''closestId'', ''x''), (''id'', ''y'')] None lg =
     (Inl (AnchorNotFound ''x''), lg @ [Count (Locate Page ''#x'')])"
  by (simp add: resolve_defs always_def)

lemma build_anchor_only:
  "0 < n \<Longrightarrow> buildPlaywrightLocator (always n) [(''closestId'', ''x'')] None lg =
     (Inl UnderspecifiedWithinAnchor, lg @ [Count (Locate Page ''#x'')])"
  by (simp add: resolve_defs always_def)

lemma build_unknown_only:
  "buildPlaywrightLocator eng [(''foo'', ''bar'')] None lg = (Inl NoStrategy, lg)"
  by (simp add: resolve_defs)

lemma parse_blank_classes:
  "parseCustomSelector ''closestId=x;classes=,'' = [(''closestId'', ''x''), (''classes'', '','')]"
  by (simp add: parse_defs)

lemma parse_empty_id:
  "parseCustomSelector ''id=;data-testid=x'' = [(''id'', []), (''data-testid'', ''x'')]"
  by (simp add: parse_defs)

lemma parse_empty_text: "parseCustomSelector ''div;text='' = [(''tagFromSelector'', ''div''), (''text'', [])]"
  by (simp add: parse_defs)

lemma parse_tag_text:
  "parseCustomSelector ''div;text=hello'' = [(''tagFromSelector'', ''div''), (''text'', ''hello'')]"
  by (simp add: parse_defs)





lemma effective_tag_nonempty: "effective_tag attrs t \<noteq> []"
  by (auto simp add: effective_tag_def attr_def split: option.splits if_splits)


lemma scope_base: "establish_scope eng attrs lg = (Inr base, lg1) \<Longrightarrow>
  (base \<noteq> Page \<longleftrightarrow> attr attrs ''closestId'' \<noteq> None)"
  by (auto simp add: establish_scope_def perform_def Let_def split: option.splits reply.splits if_splits)

text \<open>The anchor is counted exactly when \<^verbatim>\<open>closestId\<close> passes its test, and nothing
  else is called while the scope is established.\<close>

lemma scope_calls:
  "snd (establish_scope eng attrs lg) =
     (case attr attrs ''closestId'' of
        None \<Rightarrow> lg
      | Some cid \<Rightarrow> lg @ [Count (Locate Page (''#'' @ cid))])"
  by (simp add: establish_scope_def perform_def Let_def split: option.splits reply.splits)

lemma class_suffix_shape: "class_suffix cl = [] \<or> (\<exists>r. class_suffix cl = CHR ''.'' # r)"
proof -
  have "concat (map (\<lambda>cls. ''.'' @ cls) xs) = [] \<or>
        (\<exists>r. concat (map (\<lambda>cls. ''.'' @ cls) xs) = CHR ''.'' # r)" for xs :: "string list"
    by (cases xs) simp_all
  then show ?thesis unfolding class_suffix_def by blast
qed

lemma cssStringOf_not_wildcard:
  assumes "tag \<noteq> []"
    and "tag \<noteq> ''*'' \<or> attr attrs ''name'' \<noteq> None \<or> attr attrs ''classes'' \<noteq> None"
  shows "cssStringOf attrs tag \<noteq> ''*''"
proof -
  obtain c r where tag: "tag = c # r" using assms(1) by (cases tag) auto
  have suffix: "s \<noteq> ''*''" if "s = [] \<or> (\<exists>r'. s = CHR ''.'' # r')" for s :: string
    using that by auto
  show ?thesis
  proof (cases "attr attrs ''name''")
    case None
    note nm = None
    show ?thesis
    proof (cases "attr attrs ''classes''")
      case None
      with nm assms(2) show ?thesis by (simp add: cssStringOf_def)
    next
      case (Some cl)
      show ?thesis
      proof (cases "tag = ''*''")
        case True
        with nm Some suffix [OF class_suffix_shape [of cl]] show ?thesis
          by (simp add: cssStringOf_def)
      next
        case False
        with nm Some tag show ?thesis
          by (auto simp add: cssStringOf_def)
      qed
    qed
  next
    case (Some n)
    have "length (cssStringOf attrs tag) \<ge> 2"
      using Some by (simp add: cssStringOf_def attr_equals_def dquote_def Let_def split: option.splits)
    then show ?thesis by auto
  qed
qed

lemma attr_key: "attr attrs k \<noteq> None \<Longrightarrow> k \<in> set (map fst attrs)"
  by (auto simp add: attr_def split: option.splits dest!: map_of_SomeD intro: rev_image_eqI)
lemma classes_not_anchor_only: "attr attrs ''classes'' \<noteq> None \<Longrightarrow> \<not> only_anchor_keys attrs"
proof -
  assume "attr attrs ''classes'' \<noteq> None"
  then have "''classes'' \<in> set (map fst attrs)" by (rule attr_key)
  then have "''classes'' \<in> set (filter (\<lambda>k. k \<noteq> ''closestId'' \<and> k \<noteq> ''tagFromSelector'') (map fst attrs))"
    by simp
  then have "filter (\<lambda>k. k \<noteq> ''closestId'' \<and> k \<noteq> ''tagFromSelector'') (map fst attrs) \<noteq> []"
    by (metis empty_iff list.set(1))
  then show ?thesis by (simp only: only_anchor_keys_def length_0_conv not_False_eq_True)
qed

lemma cssStringOf_empty_classes:
  assumes "tag \<noteq> []" and "cssStringOf attrs tag = []"
  shows "attr attrs ''classes'' \<noteq> None"
  using assms
  by (auto simp add: cssStringOf_def attr_equals_def Let_def split: option.splits if_splits)

lemma catch_status_not_404: "catch_status e \<noteq> 404"
  by (simp add: catch_status_def)

lemma click_and_respond_not_404: "fst (click_and_respond eng loc lg) \<noteq> 404"
  by (simp add: click_and_respond_def perform_def catch_status_def split: reply.splits)

section \<open>Status of a failed resolution\<close>

text \<open>
  C1, as amended. When the pre-click waits have passed and
  \<^verbatim>\<open>buildPlaywrightLocator\<close> throws one of its three errors (anchor not found, only an
  anchor given, no strategy), \<^verbatim>\<open>/click/custom\<close> answers 500: the errors are plain
  \<^verbatim>\<open>Error\<close>s, and the handler's \<^verbatim>\<open>catch\<close> answers 408 for a \<^verbatim>\<open>TimeoutError\<close> and 500
  for everything else.
\<close>

theorem click_custom_resolution_error_500:
  assumes "cs \<noteq> []"
    and "performPreClickWaits eng True lg = (Inr (), lg1)"
    and "buildPlaywrightLocator eng (parseCustomSelector cs) tagName lg1 = (Inl e, lg2)"
    and "e = AnchorNotFound cid \<or> e = UnderspecifiedWithinAnchor \<or> e = NoStrategy"
  shows "click_custom eng True (JStr cs) tagName lg = (500, lg2)"
  using assms by (auto simp add: click_custom_def catch_status_def)

theorem click_custom_resolution_error_500_witness:
  "click_custom (always 1) True (JStr ''closestId=x'') None [] =
     (500, [WaitForLoadState ''networkidle'' 30000, WaitForTimeout 5000,
            Count (Locate Page ''#x'')])"
proof -
  have h1: "''closestId=x'' \<noteq> []" by simp
  have h2: "performPreClickWaits (always 1) True [] =
      (Inr (), [WaitForLoadState ''networkidle'' 30000, WaitForTimeout 5000])"
    by (simp add: waits_run)
  have h3: "buildPlaywrightLocator (always 1) (parseCustomSelector ''closestId=x'') None
        [WaitForLoadState ''networkidle'' 30000, WaitForTimeout 5000] =
      (Inl UnderspecifiedWithinAnchor,
       [WaitForLoadState ''networkidle'' 30000, WaitForTimeout 5000, Count (Locate Page ''#x'')])"
    by (simp add: parse_anchor_only build_anchor_only)
  have h4: "UnderspecifiedWithinAnchor = AnchorNotFound [] \<or>
      UnderspecifiedWithinAnchor = UnderspecifiedWithinAnchor \<or>
      UnderspecifiedWithinAnchor = NoStrategy" by simp
  show ?thesis by (rule click_custom_resolution_error_500 [OF h1 h2 h3 h4])
qed

text \<open>
  The claim itself asks for 400. Each of the three resolution errors gives 500: a missing
  anchor, an anchor alone, and a selector with no usable key.
\<close>

theorem click_custom_resolution_error_not_400:
  "fst (buildPlaywrightLocator (always 0) (parseCustomSelector ''closestId=x;id=y'') None
         [WaitForLoadState ''networkidle'' 30000, WaitForTimeout 5000]) = Inl (AnchorNotFound ''x'')
   \<and> fst (click_custom (always 0) True (JStr ''closestId=x;id=y'') None []) = 500
   \<and> fst (buildPlaywrightLocator (always 1) (parseCustomSelector ''closestId=x'') None
         [WaitForLoadState ''networkidle'' 30000, WaitForTimeout 5000]) = Inl UnderspecifiedWithinAnchor
   \<and> fst (click_custom (always 1) True (JStr ''closestId=x'') None []) = 500
   \<and> fst (buildPlaywrightLocator (always 1) (parseCustomSelector ''foo=bar'') None
         [WaitForLoadState ''networkidle'' 30000, WaitForTimeout 5000]) = Inl NoStrategy
   \<and> fst (click_custom (always 1) True (JStr ''foo=bar'') None []) = 500"
  by (simp add: parse_anchor_id parse_anchor_only parse_unknown_only build_anchor_missing
        build_anchor_only build_unknown_only handler_defs always_def)

section \<open>Keys the engine does not read\<close>




section \<open>The anchor\<close>

text \<open>
  C4. When \<^verbatim>\<open>closestId\<close> is present and the lookup of the anchor, the count of
  \<^verbatim>\<open>#closestId\<close> in the whole page, returns zero, resolution throws the anchor error
  after that one call, whatever the other attributes and the tag are. The lookup is made
  exactly when the value of \<^verbatim>\<open>closestId\<close> is not the empty string (line 68), which is
  the second hypothesis.
\<close>

theorem anchor_not_found_first:
  assumes "map_of attrs ''closestId'' = Some cid"
    and "cid \<noteq> []"
    and "eng lg (Count (Locate Page (''#'' @ cid))) = Done 0"
  shows "buildPlaywrightLocator eng attrs t lg =
     (Inl (AnchorNotFound cid), lg @ [Count (Locate Page (''#'' @ cid))])"
  using assms by (simp add: buildPlaywrightLocator_def establish_scope_def attr_def perform_def)

theorem anchor_not_found_first_witness:
  "map_of [(''closestId'', ''x''), (''id'', ''y'')] ''closestId'' = Some ''x''
   \<and> always 0 [] (Count (Locate Page (''#'' @ ''x''))) = Done 0
   \<and> buildPlaywrightLocator (always 0) [(''closestId'', ''x''), (''id'', ''y'')] None [] =
       (Inl (AnchorNotFound ''x''), [] @ [Count (Locate Page (''#'' @ ''x''))])"
proof -
  have h1: "map_of [(''closestId'', ''x''), (''id'', ''y'')] ''closestId'' = Some ''x''" by simp
  have h2: "''x'' \<noteq> []" by simp
  have h3: "always 0 [] (Count (Locate Page (''#'' @ ''x''))) = Done 0" by (simp add: always_def)
  from anchor_not_found_first [where eng = "always 0" and lg = "[]", OF h1 h2 h3] h1 h3
  show ?thesis by blast
qed

section \<open>No strategy\<close>

text \<open>
  C5. When the scope is established and the chain of rules leaves the target undefined,
  resolution throws: the error for an anchor alone when a \<^verbatim>\<open>closestId\<close> anchor was found
  and the object has no key besides \<^verbatim>\<open>closestId\<close> and \<^verbatim>\<open>tagFromSelector\<close>, the general
  error otherwise. The object with only \<^verbatim>\<open>closestId: "x"\<close> and a found anchor gives the
  first, the empty object gives the second.
\<close>

theorem no_strategy_errors:
  "(establish_scope eng attrs lg = (Inr base, lg1) \<and>
    select_target eng attrs (effective_tag attrs t) base lg1 = (Inr None, lg2) \<longrightarrow>
      buildPlaywrightLocator eng attrs t lg =
        (Inl (if attr attrs ''closestId'' \<noteq> None \<and> only_anchor_keys attrs
              then UnderspecifiedWithinAnchor else NoStrategy), lg2))
   \<and> (eng lg (Count (Locate Page ''#x'')) = Done (Suc n) \<longrightarrow>
        buildPlaywrightLocator eng [(''closestId'', ''x'')] None lg =
          (Inl UnderspecifiedWithinAnchor, lg @ [Count (Locate Page ''#x'')]))
   \<and> buildPlaywrightLocator eng [] None lg = (Inl NoStrategy, lg)"
proof (intro conjI impI)
  assume h: "establish_scope eng attrs lg = (Inr base, lg1) \<and>
    select_target eng attrs (effective_tag attrs t) base lg1 = (Inr None, lg2)"
  then have "base \<noteq> Page \<longleftrightarrow> attr attrs ''closestId'' \<noteq> None"
    using scope_base by blast
  with h show "buildPlaywrightLocator eng attrs t lg =
        (Inl (if attr attrs ''closestId'' \<noteq> None \<and> only_anchor_keys attrs
              then UnderspecifiedWithinAnchor else NoStrategy), lg2)"
    by (simp add: buildPlaywrightLocator_def resolve_within_def)
next
  assume "eng lg (Count (Locate Page ''#x'')) = Done (Suc n)"
  then show "buildPlaywrightLocator eng [(''closestId'', ''x'')] None lg =
          (Inl UnderspecifiedWithinAnchor, lg @ [Count (Locate Page ''#x'')])"
    by (simp add: resolve_defs)
next
  show "buildPlaywrightLocator eng [] None lg = (Inl NoStrategy, lg)"
    by (simp add: resolve_defs)
qed

theorem no_strategy_errors_witness:
  "establish_scope (always 1) [(''closestId'', ''x''), (''foo'', ''bar'')] [] =
       (Inr (Locate Page ''#x''), [Count (Locate Page ''#x'')])
   \<and> select_target (always 1) [(''closestId'', ''x''), (''foo'', ''bar'')]
         (effective_tag [(''closestId'', ''x''), (''foo'', ''bar'')] None) (Locate Page ''#x'')
         [Count (Locate Page ''#x'')] = (Inr None, [Count (Locate Page ''#x'')])
   \<and> buildPlaywrightLocator (always 1) [(''closestId'', ''x''), (''foo'', ''bar'')] None [] =
       (Inl NoStrategy, [Count (Locate Page ''#x'')])
   \<and> always 1 [] (Count (Locate Page ''#x'')) = Done (Suc 0)
   \<and> buildPlaywrightLocator (always 1) [(''closestId'', ''x'')] None [] =
       (Inl UnderspecifiedWithinAnchor, [Count (Locate Page ''#x'')])"
proof -
  let ?a = "[(''closestId'', ''x''), (''foo'', ''bar'')]"
  have h1: "establish_scope (always 1) ?a [] = (Inr (Locate Page ''#x''), [Count (Locate Page ''#x'')])"
    by (simp add: establish_scope_def attr_def perform_def always_def Let_def)
  have h2: "select_target (always 1) ?a (effective_tag ?a None) (Locate Page ''#x'')
         [Count (Locate Page ''#x'')] = (Inr None, [Count (Locate Page ''#x'')])"
    by (simp add: select_target_def effective_tag_def attr_def)
  have h3: "always 1 [] (Count (Locate Page ''#x'')) = Done (Suc 0)" by (simp add: always_def)
  have k: "attr ?a ''closestId'' \<noteq> None" "\<not> only_anchor_keys ?a"
    by (simp_all add: attr_def only_anchor_keys_def)
  from no_strategy_errors [of "always 1" ?a "[]" "Locate Page ''#x''" "[Count (Locate Page ''#x'')]"
      None "[Count (Locate Page ''#x'')]" 0] h1 h2 h3 k
  show ?thesis by simp
qed

section \<open>The CSS rule\<close>

text \<open>
  C6, as amended. When none of the earlier rules applies and the CSS rule is entered, the
  CSS string it builds is never the bare wildcard. When the string is empty the rule
  assigns nothing, with or without an anchor, and resolution throws the general error;
  otherwise the string is located within the scope.
\<close>

theorem css_rule_outcome:
  assumes "attr attrs ''id'' = None" and "attr attrs ''data-testid'' = None"
    and "attr attrs ''data-cy'' = None" and "attr attrs ''data-qa'' = None"
    and "attr attrs ''role'' = None" and "attr attrs ''aria-label'' = None"
    and "attr attrs ''text'' = None"
    and "effective_tag attrs t \<noteq> ''*'' \<or> attr attrs ''name'' \<noteq> None \<or> attr attrs ''classes'' \<noteq> None"
    and "establish_scope eng attrs lg = (Inr base, lg1)"
  shows "cssStringOf attrs (effective_tag attrs t) \<noteq> ''*'' \<and>
     buildPlaywrightLocator eng attrs t lg =
       (if cssStringOf attrs (effective_tag attrs t) = [] then Inl NoStrategy
        else Inr (Locate base (cssStringOf attrs (effective_tag attrs t))), lg1)"
proof -
  let ?tag = "effective_tag attrs t"
  let ?css = "cssStringOf attrs ?tag"
  have ne: "?tag \<noteq> []" by (rule effective_tag_nonempty)
  have star: "?css \<noteq> ''*''" by (rule cssStringOf_not_wildcard [OF ne assms(8)])
  have sel: "select_target eng attrs ?tag base lg1 = (Inr (css_target base ?css), lg1)"
    using assms(1-8) by (simp add: select_target_def)
  show ?thesis
  proof (cases "?css = []")
    case True
    then have "\<not> only_anchor_keys attrs"
      using cssStringOf_empty_classes [OF ne] classes_not_anchor_only by blast
    with True star sel assms(9) show ?thesis
      by (simp add: buildPlaywrightLocator_def resolve_within_def css_target_def)
  next
    case False
    with star sel assms(9) show ?thesis
      by (simp add: buildPlaywrightLocator_def resolve_within_def css_target_def)
  qed
qed

theorem css_rule_outcome_witness:
  "cssStringOf [(''closestId'', ''x''), (''classes'', '','')]
       (effective_tag [(''closestId'', ''x''), (''classes'', '','')] None) = []
   \<and> establish_scope (always 1) [(''closestId'', ''x''), (''classes'', '','')] [] =
       (Inr (Locate Page ''#x''), [Count (Locate Page ''#x'')])
   \<and> buildPlaywrightLocator (always 1) [(''closestId'', ''x''), (''classes'', '','')] None [] =
       (Inl NoStrategy, [Count (Locate Page ''#x'')])"
proof -
  let ?a = "[(''closestId'', ''x''), (''classes'', '','')]"
  have n: "attr ?a ''id'' = None" "attr ?a ''data-testid'' = None" "attr ?a ''data-cy'' = None"
    "attr ?a ''data-qa'' = None" "attr ?a ''role'' = None" "attr ?a ''aria-label'' = None"
    "attr ?a ''text'' = None"
    by (simp_all add: attr_def)
  have e: "effective_tag ?a None \<noteq> ''*'' \<or> attr ?a ''name'' \<noteq> None \<or> attr ?a ''classes'' \<noteq> None"
    by (simp add: attr_def)
  have s: "establish_scope (always 1) ?a [] = (Inr (Locate Page ''#x''), [Count (Locate Page ''#x'')])"
    by (simp add: establish_scope_def attr_def perform_def always_def Let_def)
  have c: "cssStringOf ?a (effective_tag ?a None) = []"
    by (simp add: cssStringOf_def effective_tag_def attr_def class_suffix_def trim_def is_space_def)
  from css_rule_outcome [where eng = "always 1", OF n e s] c s show ?thesis by simp
qed

text \<open>
  The claim has resolution fall back to any descendant of the scope when the descriptor is
  empty and an anchor is active. With a found anchor and \<^verbatim>\<open>classes\<close> holding no class,
  the descriptor is empty and resolution throws instead.
\<close>

theorem empty_descriptor_no_fallback:
  "cssStringOf (parseCustomSelector ''closestId=x;classes=,'')
       (effective_tag (parseCustomSelector ''closestId=x;classes=,'') None) = []
   \<and> establish_scope (always 1) (parseCustomSelector ''closestId=x;classes=,'') [] =
       (Inr (Locate Page ''#x''), [Count (Locate Page ''#x'')])
   \<and> buildPlaywrightLocator (always 1) (parseCustomSelector ''closestId=x;classes=,'') None [] =
       (Inl NoStrategy, [Count (Locate Page ''#x'')])
   \<and> buildPlaywrightLocator (always 1) (parseCustomSelector ''closestId=x;classes=,'') None [] \<noteq>
       (Inr (Locate (Locate Page ''#x'') ''*''), [Count (Locate Page ''#x'')])"
  by (simp add: parse_blank_classes resolve_defs always_def trim_def is_space_def)

section \<open>Priority of the id rule\<close>

text \<open>
  C7, as amended. When \<^verbatim>\<open>id\<close> holds a non-empty value and the scope is established,
  resolution gives the locator of that id within the scope, whatever \<^verbatim>\<open>data-testid\<close>, the
  other attributes and the tag are.
\<close>

theorem id_rule_first:
  assumes "map_of attrs ''id'' = Some i"
    and "i \<noteq> []"
    and "establish_scope eng attrs lg = (Inr base, lg1)"
  shows "buildPlaywrightLocator eng attrs t lg = (Inr (Locate base (''#'' @ i)), lg1)"
  using assms by (simp add: buildPlaywrightLocator_def resolve_within_def select_target_def attr_def)

theorem id_rule_first_witness:
  "map_of [(''id'', ''y''), (''data-testid'', ''z'')] ''id'' = Some ''y''
   \<and> establish_scope (always 1) [(''id'', ''y''), (''data-testid'', ''z'')] [] = (Inr Page, [])
   \<and> buildPlaywrightLocator (always 1) [(''id'', ''y''), (''data-testid'', ''z'')] (Some ''div'') [] =
       (Inr (Locate Page (''#'' @ ''y'')), [])"
proof -
  have h1: "map_of [(''id'', ''y''), (''data-testid'', ''z'')] ''id'' = Some ''y''" by simp
  have h2: "''y'' \<noteq> []" by simp
  have h3: "establish_scope (always 1) [(''id'', ''y''), (''data-testid'', ''z'')] [] = (Inr Page, [])"
    by (simp add: establish_scope_def attr_def)
  from id_rule_first [where eng = "always 1", OF h1 h2 h3] h1 h3 show ?thesis by blast
qed

text \<open>
  With \<^verbatim>\<open>id\<close> present but empty and \<^verbatim>\<open>data-testid\<close> present, the \<^verbatim>\<open>data-testid\<close>
  rule answers.
\<close>

theorem empty_id_yields_testid:
  "map_of (parseCustomSelector ''id=;data-testid=x'') ''id'' = Some []
   \<and> map_of (parseCustomSelector ''id=;data-testid=x'') ''data-testid'' = Some ''x''
   \<and> buildPlaywrightLocator (always 1) (parseCustomSelector ''id=;data-testid=x'') None [] =
       (Inr (Locate Page (attr_equals ''*'' ''data-testid'' ''x'')), [])"
  by (simp add: parse_empty_id resolve_defs)

section \<open>The text rule\<close>

text \<open>
  C8, as amended. Let \<^verbatim>\<open>text\<close> hold a non-empty value, let none of \<^verbatim>\<open>id\<close>,
  \<^verbatim>\<open>data-testid\<close>, \<^verbatim>\<open>data-cy\<close>, \<^verbatim>\<open>data-qa\<close>, \<^verbatim>\<open>role\<close>, \<^verbatim>\<open>aria-label\<close> pass its test, and
  let the tag not be the wildcard. Once the waits have passed and the scope is
  established, resolution first tries the elements of the tag within the scope filtered
  by the text: it counts them, and that count is the only call it makes. A positive count
  keeps that tag-filtered locator; a count of zero falls back to the text lookup within the
  scope, without the tag. When that fallback counts zero as well, \<^verbatim>\<open>/click/custom\<close>
  answers 404.
\<close>

theorem text_rule_fallback:
  assumes "map_of attrs ''text'' = Some txt" and "txt \<noteq> []"
    and "attr attrs ''id'' = None" and "attr attrs ''data-testid'' = None"
    and "attr attrs ''data-cy'' = None" and "attr attrs ''data-qa'' = None"
    and "attr attrs ''role'' = None" and "attr attrs ''aria-label'' = None"
    and "attrs = parseCustomSelector cs" and "cs \<noteq> []"
    and "effective_tag attrs tagName = tag" and "tag \<noteq> ''*''"
    and "performPreClickWaits eng True lg = (Inr (), lg0)"
    and "establish_scope eng attrs lg0 = (Inr base, lg1)"
    and "eng lg1 (Count (FilterHasText (Locate base tag) txt)) = Done c"
  shows "buildPlaywrightLocator eng attrs tagName lg0 =
       (Inr (if c > 0 then FilterHasText (Locate base tag) txt else GetByText base txt),
        lg1 @ [Count (FilterHasText (Locate base tag) txt)])
     \<and> (c = 0 \<and>
        eng (lg1 @ [Count (FilterHasText (Locate base tag) txt)]) (Count (GetByText base txt)) = Done 0
          \<longrightarrow> click_custom eng True (JStr cs) tagName lg =
            (404, lg1 @ [Count (FilterHasText (Locate base tag) txt), Count (GetByText base txt)]))"
proof -
  have t: "attr attrs ''text'' = Some txt" using assms(1,2) by (simp add: attr_def)
  have sel: "select_target eng attrs tag base lg1 =
      (Inr (Some (if c > 0 then FilterHasText (Locate base tag) txt else GetByText base txt)),
       lg1 @ [Count (FilterHasText (Locate base tag) txt)])"
    using assms(3-8,12,15) t by (simp add: select_target_def text_target_def perform_def Let_def)
  have b: "buildPlaywrightLocator eng attrs tagName lg0 =
       (Inr (if c > 0 then FilterHasText (Locate base tag) txt else GetByText base txt),
        lg1 @ [Count (FilterHasText (Locate base tag) txt)])"
    using assms(11,14) sel by (simp add: buildPlaywrightLocator_def resolve_within_def)
  show ?thesis
    using b assms(9,10,13) by (simp add: click_custom_def perform_def)
qed

theorem text_rule_fallback_witness:
  "buildPlaywrightLocator (always 0) (parseCustomSelector ''div;text=hello'') None
       [WaitForLoadState ''networkidle'' 30000, WaitForTimeout 5000] =
     (Inr (GetByText Page ''hello''),
      [WaitForLoadState ''networkidle'' 30000, WaitForTimeout 5000,
       Count (FilterHasText (Locate Page ''div'') ''hello'')])
   \<and> click_custom (always 0) True (JStr ''div;text=hello'') None [] =
     (404, [WaitForLoadState ''networkidle'' 30000, WaitForTimeout 5000,
            Count (FilterHasText (Locate Page ''div'') ''hello''),
            Count (GetByText Page ''hello'')])
   \<and> buildPlaywrightLocator (always 3) (parseCustomSelector ''div;text=hello'') None
       [WaitForLoadState ''networkidle'' 30000, WaitForTimeout 5000] =
     (Inr (FilterHasText (Locate Page ''div'') ''hello''),
      [WaitForLoadState ''networkidle'' 30000, WaitForTimeout 5000,
       Count (FilterHasText (Locate Page ''div'') ''hello'')])"
proof -
  let ?a = "parseCustomSelector ''div;text=hello''"
  let ?w = "[WaitForLoadState ''networkidle'' 30000, WaitForTimeout 5000]"
  have p: "?a = [(''tagFromSelector'', ''div''), (''text'', ''hello'')]" by (rule parse_tag_text)
  have h1: "map_of ?a ''text'' = Some ''hello''" by (simp add: p)
  have h2: "''hello'' \<noteq> []" by simp
  have n: "attr ?a ''id'' = None" "attr ?a ''data-testid'' = None" "attr ?a ''data-cy'' = None"
    "attr ?a ''data-qa'' = None" "attr ?a ''role'' = None" "attr ?a ''aria-label'' = None"
    by (simp_all add: p attr_def)
  have h9: "?a = parseCustomSelector ''div;text=hello''" by simp
  have h10: "''div;text=hello'' \<noteq> []" by simp
  have h11: "effective_tag ?a None = ''div''" by (simp add: p effective_tag_def attr_def)
  have h12: "''div'' \<noteq> ''*''" by simp
  have h13: "performPreClickWaits (always k) True [] = (Inr (), ?w)" for k
    using waits_run [of k "[]"] by simp
  have h14: "establish_scope (always k) ?a ?w = (Inr Page, ?w)" for k
    by (simp add: p establish_scope_def attr_def)
  have h15: "always k ?w (Count (FilterHasText (Locate Page ''div'') ''hello'')) = Done k" for k
    by (simp add: always_def)
  have h16: "always 0 (?w @ [Count (FilterHasText (Locate Page ''div'') ''hello'')])
      (Count (GetByText Page ''hello'')) = Done 0"
    by (simp add: always_def)
  from text_rule_fallback [where eng = "always 0", OF h1 h2 n h9 h10 h11 h12 h13 h14 h15] h16
  have zero: "buildPlaywrightLocator (always 0) ?a None ?w =
       (Inr (GetByText Page ''hello''), ?w @ [Count (FilterHasText (Locate Page ''div'') ''hello'')])
     \<and> click_custom (always 0) True (JStr ''div;text=hello'') None [] =
       (404, ?w @ [Count (FilterHasText (Locate Page ''div'') ''hello''),
                   Count (GetByText Page ''hello'')])"
    by simp
  from text_rule_fallback [where eng = "always 3", OF h1 h2 n h9 h10 h11 h12 h13 h14 h15]
  have some: "buildPlaywrightLocator (always 3) ?a None ?w =
       (Inr (FilterHasText (Locate Page ''div'') ''hello''),
        ?w @ [Count (FilterHasText (Locate Page ''div'') ''hello'')])"
    by simp
  from zero some show ?thesis by simp
qed

text \<open>
  With \<^verbatim>\<open>text\<close> present but empty the text rule is skipped: nothing is counted and the
  CSS rule locates the tag alone.
\<close>

theorem empty_text_skips_text_rule:
  "map_of (parseCustomSelector ''div;text='') ''text'' = Some []
   \<and> effective_tag (parseCustomSelector ''div;text='') None = ''div''
   \<and> buildPlaywrightLocator (always 0) (parseCustomSelector ''div;text='') None [] =
       (Inr (Locate Page ''div''), [])"
  by (simp add: parse_empty_text resolve_defs)

section \<open>Empty text with a tag\<close>

text \<open>
  C10. For \<^verbatim>\<open>/click/text\<close> with the empty string as \<^verbatim>\<open>textContent\<close> and a tag name (a
  non-empty string, so that the tag lookup with \<^verbatim>\<open>hasText\<close> is the one made): when that
  lookup counts zero the handler does not answer yet; it counts the locator of the string
  \<^verbatim>\<open>xpath=//\<close>, the tag name, \<^verbatim>\<open>[normalize-space(.)=""]\<close> next, once, and answers 404
  exactly when this second count is zero as well.
\<close>

theorem click_text_empty_retry:
  assumes "t \<noteq> []"
    and "performPreClickWaits eng True lg = (Inr (), lg1)"
    and "eng lg1 (Count (LocateHasText Page t [])) = Done 0"
    and "lg2 = lg1 @ [Count (LocateHasText Page t [])]"
    and "retry = Locate Page (''xpath=//'' @ t @ ''[normalize-space(.)='' @ [CHR 0x22, CHR 0x22] @ '']'')"
  shows "click_text eng True (JStr []) (JStr t) lg =
       (case eng lg2 (Count retry) of
          Raised n \<Rightarrow> (catch_status (EngineError n), lg2 @ [Count retry])
        | Done c \<Rightarrow> if c = 0 then (404, lg2 @ [Count retry])
                    else click_and_respond eng retry (lg2 @ [Count retry]))
     \<and> (fst (click_text eng True (JStr []) (JStr t) lg) = 404 \<longleftrightarrow> eng lg2 (Count retry) = Done 0)"
proof -
  have x: "preciseEmptyXPath t = ''xpath=//'' @ t @ ''[normalize-space(.)='' @ [CHR 0x22, CHR 0x22] @ '']''"
    by (simp add: preciseEmptyXPath_def dquote_def)
  have eq: "click_text eng True (JStr []) (JStr t) lg =
       (case eng lg2 (Count retry) of
          Raised n \<Rightarrow> (catch_status (EngineError n), lg2 @ [Count retry])
        | Done c \<Rightarrow> if c = 0 then (404, lg2 @ [Count retry])
                    else click_and_respond eng retry (lg2 @ [Count retry]))"
    using assms x by (simp add: click_text_def perform_def Let_def split: reply.splits)
  show ?thesis
  proof (cases "eng lg2 (Count retry)")
    case (Done c)
    then show ?thesis
      using eq click_and_respond_not_404 [of eng retry "lg2 @ [Count retry]"] by simp
  next
    case (Raised n)
    then show ?thesis using eq catch_status_not_404 [of "EngineError n"] by simp
  qed
qed

theorem click_text_empty_retry_witness:
  "click_text (always 0) True (JStr []) (JStr ''div'') [] =
     (404, [WaitForLoadState ''networkidle'' 30000, WaitForTimeout 5000,
            Count (LocateHasText Page ''div'' []),
            Count (Locate Page
              (''xpath=//div[normalize-space(.)='' @ [CHR 0x22, CHR 0x22] @ '']''))])"
proof -
  let ?w = "[WaitForLoadState ''networkidle'' 30000, WaitForTimeout 5000]"
  let ?x = "''xpath=//'' @ ''div'' @ ''[normalize-space(.)='' @ [CHR 0x22, CHR 0x22] @ '']''"
  have h1: "''div'' \<noteq> []" by simp
  have h2: "performPreClickWaits (always 0) True [] = (Inr (), ?w)"
    using waits_run [of 0 "[]"] by simp
  have h3: "always 0 ?w (Count (LocateHasText Page ''div'' [])) = Done 0" by (simp add: always_def)
  have h4: "always 0 (?w @ [Count (LocateHasText Page ''div'' [])]) (Count (Locate Page ?x)) = Done 0"
    by (simp add: always_def)
  from click_text_empty_retry [where eng = "always 0", OF h1 h2 h3 refl refl] h4
  show ?thesis by simp
qed

section \<open>Restart and startup\<close>

text \<open>
  C2. A request to \<^verbatim>\<open>/restart-browser\<close> whose teardown succeeds and whose relaunch fails
  ends the process with code 1 and sends no response: \<^verbatim>\<open>initializePlaywright\<close> catches the
  rejection itself and calls \<^verbatim>\<open>process.exit(1)\<close>, so the handler's own \<^verbatim>\<open>catch\<close> with
  its 500 is reached only by a failing \<^verbatim>\<open>browser.close()\<close>.
\<close>

theorem restart_relaunch_failure_exits:
  "restart_browser (rejecting Launch) \<lparr>browser = True, context = True, page = True\<rparr> [] =
     (ProcessExit 1, \<lparr>browser = False, context = False, page = False\<rparr>, [Close, Launch])"
  by (simp add: restart_browser_def initializePlaywright_def perform_def rejecting_def)

section \<open>Pre-click waits\<close>

text \<open>
  C9, as amended. Without a page the waits throw at once and call nothing. With a page,
  the network-idle wait (30000 ms) and then the settle delay (5000 ms) are always both
  called, whatever the network-idle wait answers; the caller gets an error exactly when
  the settle delay itself is rejected, because that call is outside the \<^verbatim>\<open>try\<close>.
\<close>

theorem stabilize_outcome:
  "performPreClickWaits eng False lg = (Inl PageNotInitialized, lg) \<and>
   performPreClickWaits eng True lg =
     ((case eng (lg @ [WaitForLoadState ''networkidle'' 30000]) (WaitForTimeout 5000) of
         Raised n \<Rightarrow> Inl (EngineError n)
       | Done k \<Rightarrow> Inr ()),
      lg @ [WaitForLoadState ''networkidle'' 30000, WaitForTimeout 5000])"
  by (simp add: performPreClickWaits_def perform_def split: reply.split)

text \<open>
  The claim says the waits never fail a caller that has a page. A rejected settle delay
  does.
\<close>

theorem stabilize_settle_failure_propagates:
  "performPreClickWaits (rejecting (WaitForTimeout 5000)) True [] =
     (Inl (EngineError ''Error''), [WaitForLoadState ''networkidle'' 30000, WaitForTimeout 5000])"
  by (simp add: performPreClickWaits_def perform_def rejecting_def)

end
